theory Spec2Isabelle
  imports Complex_Main "HOL-Library.List_Lexorder" "HOL-Library.Char_ord"
begin

section \<open>The number type of the host language\<close>

text \<open>
  The calculator of \<^verbatim>\<open>App.tsx\<close> keeps its operands as values of the language's
  \<^verbatim>\<open>number\<close> type: IEEE 754 binary64 with two zeros, two infinities and one NaN.
  A finite value is kept as a sign flag (\<open>True\<close> for negative) and its magnitude, a
  non-negative rational; \<open>Fin True 0\<close> is the negative zero. The operators
  \<^verbatim>\<open>+ - * /\<close> compute the exact result and round it to the nearest number, ties to
  the even significand.
\<close>

datatype number = NaN | Infinity bool | Fin bool rat

definition scale :: "int \<Rightarrow> int \<Rightarrow> rat" where
  \<comment> \<open>\<open>b\<close> to the power \<open>e\<close>, for an exponent of either sign\<close>
  "scale b e = (if 0 \<le> e then of_int b ^ nat e else 1 / of_int b ^ nat (- e))"

function digit_count :: "int \<Rightarrow> int \<Rightarrow> int" where
  \<comment> \<open>the number of digits of a positive \<open>n\<close> written in base \<open>b\<close>\<close>
  "digit_count b n = (if b < 2 \<or> n \<le> 0 then 0 else 1 + digit_count b (n div b))"
  by pat_completeness auto
termination
  by (relation "measure (\<lambda>(b, n). nat n)")
    (auto simp: pos_imp_zdiv_nonneg_iff intro: int_div_less_self)

definition floor_log :: "int \<Rightarrow> rat \<Rightarrow> int" where
  \<comment> \<open>the integer \<open>k\<close> with \<open>b ^ k \<le> r < b ^ (k + 1)\<close>, for a positive \<open>r\<close>\<close>
  "floor_log b r =
     (let p = fst (quotient_of r); q = snd (quotient_of r);
          k = digit_count b p - digit_count b q
      in if scale b k \<le> r then k else k - 1)"

definition round_half_even :: "rat \<Rightarrow> int" where
  "round_half_even q =
     (let f = \<lfloor>q\<rfloor>; d = q - of_int f
      in if d < 1 / 2 then f else if 1 / 2 < d then f + 1
         else if even f then f else f + 1)"

definition to_double :: "bool \<Rightarrow> rat \<Rightarrow> number" where
  \<comment> \<open>the number nearest to a non-negative magnitude \<open>m\<close> (ties to even): 53 bits of
      significand, exponents down to the subnormal \<open>2 ^ -1074\<close>, overflow to infinity\<close>
  "to_double neg m =
     (if m = 0 then Fin neg 0
      else let e = max (floor_log 2 m - 52) (- 1074);
               v = of_int (round_half_even (m / scale 2 e)) * scale 2 e
           in if scale 2 1024 \<le> v then Infinity neg else Fin neg v)"

definition sval :: "bool \<Rightarrow> rat \<Rightarrow> rat" where
  "sval neg m = (if neg then - m else m)"

fun js_neg :: "number \<Rightarrow> number" where
  "js_neg NaN = NaN"
| "js_neg (Infinity a) = Infinity (\<not> a)"
| "js_neg (Fin a x) = Fin (\<not> a) x"

fun js_add :: "number \<Rightarrow> number \<Rightarrow> number" where
  "js_add NaN _ = NaN"
| "js_add _ NaN = NaN"
| "js_add (Infinity a) (Infinity b) = (if a = b then Infinity a else NaN)"
| "js_add (Infinity a) (Fin _ _) = Infinity a"
| "js_add (Fin _ _) (Infinity b) = Infinity b"
| "js_add (Fin a x) (Fin b y) =
     (let v = sval a x + sval b y
      in if v = 0 then Fin (a \<and> b) 0 else to_double (v < 0) \<bar>v\<bar>)"

definition js_sub :: "number \<Rightarrow> number \<Rightarrow> number" where
  "js_sub x y = js_add x (js_neg y)"

fun js_mul :: "number \<Rightarrow> number \<Rightarrow> number" where
  "js_mul NaN _ = NaN"
| "js_mul _ NaN = NaN"
| "js_mul (Infinity a) (Infinity b) = Infinity (a \<noteq> b)"
| "js_mul (Infinity a) (Fin b y) = (if y = 0 then NaN else Infinity (a \<noteq> b))"
| "js_mul (Fin a x) (Infinity b) = (if x = 0 then NaN else Infinity (a \<noteq> b))"
| "js_mul (Fin a x) (Fin b y) = to_double (a \<noteq> b) (x * y)"

fun js_div :: "number \<Rightarrow> number \<Rightarrow> number" where
  "js_div NaN _ = NaN"
| "js_div _ NaN = NaN"
| "js_div (Infinity a) (Infinity b) = NaN"
| "js_div (Infinity a) (Fin b y) = Infinity (a \<noteq> b)"
| "js_div (Fin a x) (Infinity b) = Fin (a \<noteq> b) 0"
| "js_div (Fin a x) (Fin b y) =
     (if y = 0 then (if x = 0 then NaN else Infinity (a \<noteq> b))
      else to_double (a \<noteq> b) (x / y))"

fun strict_eq :: "number \<Rightarrow> number \<Rightarrow> bool" where
  \<comment> \<open>\<^verbatim>\<open>===\<close> on numbers: NaN equals nothing, the two zeros are equal\<close>
  "strict_eq (Infinity a) (Infinity b) = (a = b)"
| "strict_eq (Fin a x) (Fin b y) = (x = y \<and> (a = b \<or> x = 0))"
| "strict_eq _ _ = False"

fun truthy :: "number \<Rightarrow> bool" where
  \<comment> \<open>a number in a boolean position: false for both zeros and NaN\<close>
  "truthy NaN = False"
| "truthy (Infinity _) = True"
| "truthy (Fin _ x) = (x \<noteq> 0)"

definition isNaN :: "number \<Rightarrow> bool" where
  "isNaN x = (x = NaN)"

fun js_abs :: "number \<Rightarrow> number" where
  "js_abs NaN = NaN"
| "js_abs (Infinity _) = Infinity False"
| "js_abs (Fin _ x) = Fin False x"

fun js_lt :: "number \<Rightarrow> number \<Rightarrow> bool" where
  "js_lt NaN _ = False"
| "js_lt _ NaN = False"
| "js_lt (Infinity a) (Infinity b) = (a \<and> \<not> b)"
| "js_lt (Infinity a) (Fin _ _) = a"
| "js_lt (Fin _ _) (Infinity b) = (\<not> b)"
| "js_lt (Fin a x) (Fin b y) = (sval a x < sval b y)"

definition js_gt :: "number \<Rightarrow> number \<Rightarrow> bool" where
  "js_gt x y = js_lt y x"

definition js_ge :: "number \<Rightarrow> number \<Rightarrow> bool" where
  "js_ge x y = (x \<noteq> NaN \<and> y \<noteq> NaN \<and> \<not> js_lt x y)"

subsection \<open>Number to string\<close>

text \<open>
  \<^verbatim>\<open>result.toString()\<close> writes the shortest decimal numeral that reads back as the same
  number: the least \<open>k\<close> for which some \<open>k\<close>-digit integer \<open>s\<close> and exponent \<open>n\<close> have
  \<open>s * 10 ^ (n - k)\<close> round to the value, and among those \<open>s\<close> the nearest one.
\<close>

definition digit_char :: "int \<Rightarrow> char" where
  "digit_char d = ''0123456789'' ! nat d"

function show_nat :: "int \<Rightarrow> string" where
  \<comment> \<open>the decimal digits of a non-negative integer\<close>
  "show_nat n =
     (if n < 10 then [digit_char n] else show_nat (n div 10) @ [digit_char (n mod 10)])"
  by pat_completeness auto
termination
  by (relation "measure nat") auto

definition candidate :: "rat \<Rightarrow> int \<Rightarrow> nat \<Rightarrow> (int \<times> int) option" where
  \<comment> \<open>the \<open>k\<close>-digit numeral next to \<open>x\<close> that reads back as \<open>x\<close>, if there is one;
      \<open>n\<close> is the decimal exponent of \<open>x\<close>: \<open>10 ^ (n - 1) \<le> x < 10 ^ n\<close>\<close>
  "candidate x n k =
     (let u = scale 10 (n - int k);
          lo = \<lfloor>x / u\<rfloor>; hi = lo + 1;
          ok_lo = (to_double False (of_int lo * u) = Fin False x);
          ok_hi = (to_double False (of_int hi * u) = Fin False x);
          d_lo = x - of_int lo * u; d_hi = of_int hi * u - x
      in if ok_hi \<and> (\<not> ok_lo \<or> d_hi < d_lo \<or> (d_hi = d_lo \<and> even hi))
         then Some (if hi = 10 ^ k then (10 ^ (k - 1), n + 1) else (hi, n))
         else if ok_lo then Some (lo, n) else None)"

fun first_candidate :: "rat \<Rightarrow> int \<Rightarrow> nat list \<Rightarrow> (int \<times> int) option" where
  "first_candidate x n [] = None"
| "first_candidate x n (k # ks) =
     (case candidate x n k of Some r \<Rightarrow> Some r | None \<Rightarrow> first_candidate x n ks)"

definition shortest_digits :: "rat \<Rightarrow> int \<times> int" where
  \<comment> \<open>seventeen digits always suffice for a binary64 value; the last case only makes the
      function total on magnitudes that are not such values\<close>
  "shortest_digits x =
     (let n = floor_log 10 x + 1
      in case first_candidate x n
                [1, 2, 3, 4, 5, 6, 7, 8, 9, 10, 11, 12, 13, 14, 15, 16, 17] of
           Some r \<Rightarrow> r
         | None \<Rightarrow> (\<lfloor>x / scale 10 (n - 17)\<rfloor>, n))"

definition render :: "rat \<Rightarrow> string" where
  "render x =
     (let s = fst (shortest_digits x); n = snd (shortest_digits x);
          ds = show_nat s; k = length ds
      in if int k \<le> n \<and> n \<le> 21 then ds @ replicate (nat (n - int k)) CHR ''0''
         else if 0 < n \<and> n \<le> 21 then take (nat n) ds @ ''.'' @ drop (nat n) ds
         else if - 6 < n \<and> n \<le> 0 then ''0.'' @ replicate (nat (- n)) CHR ''0'' @ ds
         else let e = n - 1;
                  es = (if e < 0 then ''-'' else ''+'') @ show_nat \<bar>e\<bar>
              in if k = 1 then ds @ ''e'' @ es
                 else take 1 ds @ ''.'' @ drop 1 ds @ ''e'' @ es)"

fun toString :: "number \<Rightarrow> string" where
  "toString NaN = ''NaN''"
| "toString (Infinity neg) = (if neg then ''-Infinity'' else ''Infinity'')"
| "toString (Fin neg x) =
     (if x = 0 then ''0'' else (if neg then ''-'' else '''') @ render x)"

subsection \<open>String to number\<close>

text \<open>
  \<^verbatim>\<open>parseFloat\<close> skips leading white space and reads the longest prefix that is a decimal
  literal: an optional sign, then \<^verbatim>\<open>Infinity\<close> or digits with an optional fraction
  and an optional exponent. Without such a prefix the result is NaN. A character of a
  string stands for a UTF-16 code unit below 256, which covers every character the
  program writes (\<open>\<times>\<close> is \<open>0xD7\<close> and \<open>\<div>\<close> is \<open>0xF7\<close>).
\<close>

definition is_digit :: "char \<Rightarrow> bool" where
  "is_digit c = (c \<in> set ''0123456789'')"

definition is_white :: "char \<Rightarrow> bool" where
  "is_white c =
     (c \<in> set [CHR 0x09, CHR 0x0A, CHR 0x0B, CHR 0x0C, CHR 0x0D, CHR 0x20, CHR 0xA0])"

definition digit_val :: "char \<Rightarrow> int" where
  "digit_val c = of_char c - 48"

definition digits_value :: "string \<Rightarrow> int" where
  "digits_value ds = foldl (\<lambda>a c. 10 * a + digit_val c) 0 ds"

definition split_sign :: "string \<Rightarrow> bool \<times> string" where
  "split_sign t =
     (case t of
        [] \<Rightarrow> (False, [])
      | c # r \<Rightarrow> if c = CHR ''-'' then (True, r) else if c = CHR ''+'' then (False, r)
                 else (False, t))"

definition parse_exponent :: "string \<Rightarrow> int" where
  \<comment> \<open>the value of an exponent part at the head of the string, 0 when there is none\<close>
  "parse_exponent t =
     (case t of
        [] \<Rightarrow> 0
      | c # r \<Rightarrow>
          if c = CHR ''e'' \<or> c = CHR ''E''
          then (let ds = takeWhile is_digit (snd (split_sign r))
                in if ds = [] then 0
                   else if fst (split_sign r) then - digits_value ds
                   else digits_value ds)
          else 0)"

definition parseFloat :: "string \<Rightarrow> number" where
  "parseFloat str =
     (let t = dropWhile is_white str; neg = fst (split_sign t); u = snd (split_sign t)
      in if take 8 u = ''Infinity'' then Infinity neg
         else let ip = takeWhile is_digit u; r1 = dropWhile is_digit u;
                  dot = (r1 \<noteq> [] \<and> hd r1 = CHR ''.'');
                  fp = (if dot then takeWhile is_digit (tl r1) else []);
                  r2 = (if dot then dropWhile is_digit (tl r1) else r1)
              in if ip = [] \<and> fp = [] then NaN
                 else to_double neg
                        (of_int (digits_value (ip @ fp))
                           * scale 10 (parse_exponent r2 - int (length fp))))"

section \<open>The calculator state\<close>

record CalculatorState =
  display :: string
  previousValue :: "number option"
  operation :: "string option"
  waitingForNewValue :: bool
  lastOperation :: "string option"
  lastOperand :: "number option"

definition initialState :: CalculatorState where
  "initialState =
     \<lparr>display = ''0'', previousValue = None, operation = None,
      waitingForNewValue = False, lastOperation = None, lastOperand = None\<rparr>"

definition op_times :: string where
  "op_times = [CHR 0xD7]"

definition op_divide :: string where
  "op_divide = [CHR 0xF7]"

fun truthy_string :: "string option \<Rightarrow> bool" where
  \<comment> \<open>a \<^verbatim>\<open>string | null\<close> in a boolean position: false for null and the empty string\<close>
  "truthy_string None = False"
| "truthy_string (Some s) = (s \<noteq> [])"

fun or_zero :: "number option \<Rightarrow> number" where
  \<comment> \<open>\<^verbatim>\<open>v || 0\<close> for a \<^verbatim>\<open>number | null\<close>\<close>
  "or_zero None = Fin False 0"
| "or_zero (Some v) = (if truthy v then v else Fin False 0)"

section \<open>The display formatter\<close>

text \<open>
  \<^verbatim>\<open>num.toExponential(6)\<close> and \<^verbatim>\<open>num.toLocaleString('en-US', ...)\<close> belong to the host's
  library; the formatter takes them as its first two arguments.
\<close>

definition formatDisplay ::
  "(number \<Rightarrow> string) \<Rightarrow> (number \<Rightarrow> string) \<Rightarrow> string \<Rightarrow> string" where
  "formatDisplay toExponential toLocaleString v =
     (if v = ''Error'' then v
      else let n = parseFloat v
           in if isNaN n then v
              else if js_gt (js_abs n) (Fin False 999999999999) then toExponential n
              else if js_ge (js_abs n) (Fin False 1000) then toLocaleString n
              else v)"

section \<open>The state transitions\<close>

text \<open>
  Each handler passes an updater to \<^verbatim>\<open>setState\<close>; the updater is the function from the
  previous state to the next one that is given here.
\<close>

definition inputNumber :: "string \<Rightarrow> CalculatorState \<Rightarrow> CalculatorState" where
  "inputNumber n prevState =
     (if waitingForNewValue prevState
      then prevState\<lparr>display := n, waitingForNewValue := False\<rparr>
      else if display prevState = ''0'' \<or> display prevState = ''Error''
      then prevState\<lparr>display := n\<rparr>
      else prevState\<lparr>display := display prevState @ n\<rparr>)"

definition inputDecimal :: "CalculatorState \<Rightarrow> CalculatorState" where
  "inputDecimal prevState =
     (if waitingForNewValue prevState
      then prevState\<lparr>display := ''0.'', waitingForNewValue := False\<rparr>
      else if CHR ''.'' \<notin> set (display prevState)
      then prevState\<lparr>display := display prevState @ ''.''\<rparr>
      else prevState)"

definition clear :: "CalculatorState \<Rightarrow> CalculatorState" where
  "clear prevState =
     \<lparr>display = ''0'', previousValue = None, operation = None,
      waitingForNewValue = False, lastOperation = None, lastOperand = None\<rparr>"

definition performOperation :: "string \<Rightarrow> CalculatorState \<Rightarrow> CalculatorState" where
  "performOperation nextOperation prevState =
     (let inputValue = parseFloat (display prevState);
          commit = (\<lambda>result.
            prevState\<lparr>display := toString result, previousValue := Some result,
                        operation := Some nextOperation, waitingForNewValue := True,
                        lastOperation := operation prevState,
                        lastOperand := Some inputValue\<rparr>)
      in if previousValue prevState = None
         then prevState\<lparr>previousValue := Some inputValue, operation := Some nextOperation,
                          waitingForNewValue := True\<rparr>
         else if truthy_string (operation prevState) \<and> waitingForNewValue prevState
         then prevState\<lparr>operation := Some nextOperation\<rparr>
         else let currentValue = or_zero (previousValue prevState)
              in if operation prevState = Some ''+''
                 then commit (js_add currentValue inputValue)
                 else if operation prevState = Some ''-''
                 then commit (js_sub currentValue inputValue)
                 else if operation prevState = Some op_times
                 then commit (js_mul currentValue inputValue)
                 else if operation prevState = Some op_divide
                 then (if strict_eq inputValue (Fin False 0)
                       then prevState\<lparr>display := ''Error'', previousValue := None,
                                        operation := None, waitingForNewValue := True\<rparr>
                       else commit (js_div currentValue inputValue))
                 else prevState)"

definition calculate :: "CalculatorState \<Rightarrow> CalculatorState" where
  "calculate prevState =
     (let inputValue = parseFloat (display prevState)
      in if previousValue prevState = None \<or> operation prevState = None
         then (if truthy_string (lastOperation prevState) \<and> lastOperand prevState \<noteq> None
               then (let currentValue = inputValue;
                         operand = the (lastOperand prevState);
                         commit = (\<lambda>result.
                           prevState\<lparr>display := toString result,
                                       waitingForNewValue := True\<rparr>)
                     in if lastOperation prevState = Some ''+''
                        then commit (js_add currentValue operand)
                        else if lastOperation prevState = Some ''-''
                        then commit (js_sub currentValue operand)
                        else if lastOperation prevState = Some op_times
                        then commit (js_mul currentValue operand)
                        else if lastOperation prevState = Some op_divide
                        then (if strict_eq operand (Fin False 0)
                              then prevState\<lparr>display := ''Error'',
                                               waitingForNewValue := True\<rparr>
                              else commit (js_div currentValue operand))
                        else prevState)
               else prevState)
         else (let currentValue = the (previousValue prevState);
                   commit = (\<lambda>result.
                     prevState\<lparr>display := toString result, previousValue := None,
                                 operation := None, waitingForNewValue := True,
                                 lastOperation := operation prevState,
                                 lastOperand := Some inputValue\<rparr>)
               in if operation prevState = Some ''+''
                  then commit (js_add currentValue inputValue)
                  else if operation prevState = Some ''-''
                  then commit (js_sub currentValue inputValue)
                  else if operation prevState = Some op_times
                  then commit (js_mul currentValue inputValue)
                  else if operation prevState = Some op_divide
                  then (if strict_eq inputValue (Fin False 0)
                        then prevState\<lparr>display := ''Error'', previousValue := None,
                                         operation := None, waitingForNewValue := True\<rparr>
                        else commit (js_div currentValue inputValue))
                  else prevState))"

text \<open>
  Backspace has two implementations: the updater of the \<^verbatim>\<open>Backspace\<close> branch of the
  keyboard handler, and the updater written inline in the on-screen button
  (\<^verbatim>\<open>prev.display.slice(0, -1) || '0'\<close>, where the empty string is the falsy case).
\<close>

definition backspaceKey :: "CalculatorState \<Rightarrow> CalculatorState" where
  "backspaceKey prevState =
     (if length (display prevState) > 1 \<and> display prevState \<noteq> ''Error''
      then prevState\<lparr>display := butlast (display prevState)\<rparr>
      else prevState\<lparr>display := ''0''\<rparr>)"

definition backspaceButton :: "CalculatorState \<Rightarrow> CalculatorState" where
  "backspaceButton prev =
     prev\<lparr>display := (if butlast (display prev) \<noteq> [] then butlast (display prev)
                        else ''0'')\<rparr>"

definition handleKeyPress :: "string \<Rightarrow> CalculatorState \<Rightarrow> CalculatorState" where
  \<comment> \<open>the argument is \<^verbatim>\<open>event.key\<close>; strings compare by code units, a proper prefix first\<close>
  "handleKeyPress key s =
     (if ''0'' \<le> key \<and> key \<le> ''9'' then inputNumber key s
      else if key = ''.'' then inputDecimal s
      else if key = ''+'' then performOperation ''+'' s
      else if key = ''-'' then performOperation ''-'' s
      else if key = ''*'' then performOperation op_times s
      else if key = ''/'' then performOperation op_divide s
      else if key = ''Enter'' \<or> key = ''='' then calculate s
      else if key = ''Escape'' \<or> key = ''c'' \<or> key = ''C'' then clear s
      else if key = ''Backspace'' then backspaceKey s
      else s)"

section \<open>Input events\<close>

text \<open>
  The events the two adapters produce: the digit keys and buttons hand one of the ten
  numerals to \<open>inputNumber\<close>, the operator keys and buttons hand one of the four operator
  strings to \<open>performOperation\<close>.
\<close>

datatype event =
  Digit string | Decimal | Operator string | Equals | Clear | Backspace | DeleteButton

definition digit_keys :: "string list" where
  \<comment> \<open>the ten one-character strings of the digit keys and buttons\<close>
  "digit_keys = map (\<lambda>c. [c]) ''0123456789''"

definition operators :: "string list" where
  "operators = [''+'', ''-'', op_times, op_divide]"

fun dispatch :: "event \<Rightarrow> CalculatorState \<Rightarrow> CalculatorState" where
  "dispatch (Digit d) s = inputNumber d s"
| "dispatch Decimal s = inputDecimal s"
| "dispatch (Operator opr) s = performOperation opr s"
| "dispatch Equals s = calculate s"
| "dispatch Clear s = clear s"
| "dispatch Backspace s = backspaceKey s"
| "dispatch DeleteButton s = backspaceButton s"

fun run :: "event list \<Rightarrow> CalculatorState \<Rightarrow> CalculatorState" where
  \<comment> \<open>events are applied in arrival order, each to the state the previous one left\<close>
  "run [] s = s"
| "run (e # es) s = run es (dispatch e s)"

section \<open>Notions of the specification\<close>

text \<open>
  The specification's table of binary operations: sum, difference, product, and the
  quotient, which is defined only for a right operand that is not zero. The result that
  is not defined is shown as \<^verbatim>\<open>Error\<close>.
\<close>

definition binary_operation :: "string \<Rightarrow> number \<Rightarrow> number \<Rightarrow> number option" where
  "binary_operation opr l r =
     (if opr = ''+'' then Some (js_add l r)
      else if opr = ''-'' then Some (js_sub l r)
      else if opr = op_times then Some (js_mul l r)
      else if opr = op_divide \<and> \<not> strict_eq r (Fin False 0) then Some (js_div l r)
      else None)"

definition show_result :: "number option \<Rightarrow> string" where
  "show_result res = (case res of None \<Rightarrow> ''Error'' | Some v \<Rightarrow> toString v)"

definition known_operator :: "string option \<Rightarrow> bool" where
  "known_operator x = (case x of None \<Rightarrow> False | Some opr \<Rightarrow> opr \<in> set operators)"

definition divides_by_zero :: "CalculatorState \<Rightarrow> bool" where
  \<comment> \<open>the pending operation is a division and the display parses to a zero\<close>
  "divides_by_zero s =
     (operation s = Some op_divide \<and> strict_eq (parseFloat (display s)) (Fin False 0))"

definition reuses_displayed_operand :: "CalculatorState \<Rightarrow> bool" where
  \<comment> \<open>\<open>calculate\<close> shows the pending operation applied to the staged operand on the left
      and the displayed value on the right\<close>
  "reuses_displayed_operand s =
     (case previousValue s of
        None \<Rightarrow> False
      | Some l \<Rightarrow>
          (case operation s of
             None \<Rightarrow> False
           | Some opr \<Rightarrow>
               display (calculate s)
                 = show_result (binary_operation opr l (parseFloat (display s)))))"

definition chains_pending_operation :: "string \<Rightarrow> CalculatorState \<Rightarrow> bool" where
  \<comment> \<open>\<open>performOperation\<close> with the next operator computes the pending operation on the
      staged operand and the displayed value, shows and stages its result, and stages
      the next operator\<close>
  "chains_pending_operation nxt s =
     (case previousValue s of
        None \<Rightarrow> False
      | Some p \<Rightarrow>
          (case operation s of
             None \<Rightarrow> False
           | Some opr \<Rightarrow>
               (case binary_operation opr p (parseFloat (display s)) of
                  None \<Rightarrow> False
                | Some result \<Rightarrow>
                    performOperation nxt s
                      = s\<lparr>display := toString result, previousValue := Some result,
                           operation := Some nxt, waitingForNewValue := True,
                           lastOperation := Some opr,
                           lastOperand := Some (parseFloat (display s))\<rparr>)))"

definition last_pair :: "CalculatorState \<Rightarrow> string option \<times> number option" where
  "last_pair s = (lastOperation s, lastOperand s)"

fun commits :: "event \<Rightarrow> CalculatorState \<Rightarrow> bool" where
  \<comment> \<open>the event makes a calculation of a pending operation that commits its result\<close>
  "commits (Operator nxt) s =
     (previousValue s \<noteq> None \<and> \<not> waitingForNewValue s
      \<and> known_operator (operation s) \<and> \<not> divides_by_zero s)"
| "commits Equals s =
     (previousValue s \<noteq> None \<and> known_operator (operation s) \<and> \<not> divides_by_zero s)"
| "commits _ s = False"

definition repeat_division_by_zero :: "CalculatorState \<Rightarrow> bool" where
  \<comment> \<open>the path condition of the branch of \<open>calculate\<close> that answers a repeated division by
      a zero operand with \<^verbatim>\<open>Error\<close>\<close>
  "repeat_division_by_zero s =
     ((previousValue s = None \<or> operation s = None)
      \<and> truthy_string (lastOperation s) \<and> lastOperand s \<noteq> None
      \<and> lastOperation s = Some op_divide
      \<and> strict_eq (the (lastOperand s)) (Fin False 0))"

fun entry_event :: "event \<Rightarrow> bool" where
  \<comment> \<open>a digit or the decimal point\<close>
  "entry_event (Digit d) = (d \<in> set digit_keys)"
| "entry_event Decimal = True"
| "entry_event _ = False"

definition dots :: "string \<Rightarrow> nat" where
  "dots str = count_list str CHR ''.''"

definition last_invariant :: "CalculatorState \<Rightarrow> bool" where
  \<comment> \<open>the last operation and its operand are recorded together, the operation is one of
      the four, and a recorded divisor is not a zero\<close>
  "last_invariant s =
     (case lastOperation s of
        None \<Rightarrow> lastOperand s = None
      | Some opr \<Rightarrow>
          (case lastOperand s of
             None \<Rightarrow> False
           | Some r \<Rightarrow> opr \<in> set operators
                       \<and> \<not> (opr = op_divide \<and> strict_eq r (Fin False 0))))"

subsection \<open>The event sequences of the examples\<close>

definition five_plus_three :: "event list" where
  "five_plus_three = [Digit ''5'', Operator ''+'', Digit ''3'', Equals]"

definition three_plus_four :: "event list" where
  "three_plus_four = [Digit ''3'', Operator ''+'', Digit ''4'']"

definition five_plus :: "event list" where
  "five_plus = [Digit ''5'', Operator ''+'']"

definition five_by_zero :: "event list" where
  "five_by_zero = [Digit ''5'', Operator op_divide, Digit ''0'']"

definition six_by_two :: "event list" where
  "six_by_two = [Digit ''6'', Operator op_divide, Digit ''2'']"

definition sum_then_five_by_zero :: "event list" where
  "sum_then_five_by_zero =
     [Digit ''2'', Operator ''+'', Digit ''3'', Equals,
      Digit ''5'', Operator op_divide, Digit ''0'']"

definition error_plus_three :: "event list" where
  "error_plus_three =
     [Digit ''5'', Operator op_divide, Digit ''0'', Equals, Operator ''+'', Digit ''3'']"

definition negative_zero_minus_zero :: "event list" where
  "negative_zero_minus_zero =
     [Digit ''5'', Operator ''-'', Digit ''8'', Equals,
      Operator op_times, Digit ''0'', Operator ''-'', Digit ''0'']"

definition one_point_five :: "event list" where
  "one_point_five = [Digit ''1'', Decimal, Digit ''5'']"

section \<open>Evaluating the number functions\<close>

lemma floor_rat_div_numeral:
  "\<lfloor>(numeral a :: rat) / numeral b\<rfloor> = numeral a div numeral b"
  by (metis floor_divide_of_int_eq of_int_numeral)

lemmas num_eval = to_double_def floor_log_def round_half_even_def scale_def Let_def sval_def
  floor_rat_div_numeral

lemmas str_eval = candidate_def shortest_digits_def render_def digit_char_def

lemmas parse_eval = parseFloat_def is_white_def is_digit_def split_sign_def
  parse_exponent_def digits_value_def digit_val_def

lemma parseFloat_numerals:
  "parseFloat ''0'' = Fin False 0" "parseFloat ''2'' = Fin False 2"
  "parseFloat ''3'' = Fin False 3" "parseFloat ''4'' = Fin False 4"
  "parseFloat ''5'' = Fin False 5" "parseFloat ''6'' = Fin False 6"
  "parseFloat ''7'' = Fin False 7" "parseFloat ''8'' = Fin False 8"
  "parseFloat ''999'' = Fin False 999" "parseFloat ''1.'' = Fin False 1"
  "parseFloat ''-3'' = Fin True 3"
  by (simp_all add: parse_eval num_eval)

lemma parseFloat_no_numeral:
  "parseFloat ''Error'' = NaN" "parseFloat ''abc'' = NaN"
  by (simp_all add: parse_eval)

lemma arithmetic_examples:
  "js_add (Fin False 5) (Fin False 3) = Fin False 8"
  "js_add (Fin False 8) (Fin False 3) = Fin False 11"
  "js_add (Fin False 3) (Fin False 4) = Fin False 7"
  "js_add (Fin False 2) (Fin False 3) = Fin False 5"
  "js_mul (Fin False 7) (Fin False 2) = Fin False 14"
  "js_mul (Fin False 5) (Fin False 2) = Fin False 10"
  "js_div (Fin False 6) (Fin False 2) = Fin False 3"
  "js_add NaN (Fin False 3) = NaN"
  "js_add (Fin False 0) (Fin False 3) = Fin False 3"
  "js_sub (Fin False 5) (Fin False 8) = Fin True 3"
  "js_mul (Fin True 3) (Fin False 0) = Fin True 0"
  "js_sub (Fin False 0) (Fin False 0) = Fin False 0"
  "js_sub (Fin True 0) (Fin False 0) = Fin True 0"
  by (simp_all add: num_eval js_sub_def)

lemma toString_examples:
  "toString (Fin False 3) = ''3''" "toString (Fin False 5) = ''5''"
  "toString (Fin False 7) = ''7''" "toString (Fin False 8) = ''8''"
  "toString (Fin False 10) = ''10''" "toString (Fin False 11) = ''11''"
  "toString (Fin False 14) = ''14''" "toString (Fin True 3) = ''-3''"
  "toString (Fin False 0) = ''0''" "toString (Fin True 0) = ''0''"
  by (simp_all add: str_eval num_eval)

text \<open>
  Values that are not integers: the nearest number to a decimal fraction, the sum that is
  not the nearest number to \<^verbatim>\<open>0.3\<close>, the first integer that is not a number, the
  two zeros, and the division of a number by a zero outside the calculator's guard.
\<close>

lemma quotient_of_numeral_div:
  "quotient_of (numeral a / numeral b) = Rat.normalize (numeral a, numeral b)"
  by (metis Fract_of_int_quotient of_int_numeral quotient_of_Fract)

lemma quotient_of_one_div:
  "quotient_of (1 / numeral b) = Rat.normalize (1, numeral b)"
  by (metis Fract_of_int_quotient of_int_numeral of_int_1 quotient_of_Fract)

lemma floor_rat_one_div_numeral: "\<lfloor>(1 :: rat) / numeral b\<rfloor> = 1 div numeral b"
  by (metis floor_divide_of_int_eq of_int_numeral of_int_1)

lemmas frac_eval = quotient_of_numeral_div quotient_of_one_div floor_rat_one_div_numeral
  Rat.normalize_def gcd_code_int

lemma rounding_examples:
  "parseFloat ''0.1'' = Fin False (3602879701896397 / 36028797018963968)"
  "parseFloat ''0.2'' = Fin False (3602879701896397 / 18014398509481984)"
  "parseFloat ''0.3'' = Fin False (5404319552844595 / 18014398509481984)"
  "js_add (Fin False (3602879701896397 / 36028797018963968))
          (Fin False (3602879701896397 / 18014398509481984))
     = Fin False (5404319552844596 / 18014398509481984)"
  "parseFloat ''9007199254740993'' = Fin False 9007199254740992"
  "js_div (Fin False 5) (Fin False 2) = Fin False (5 / 2)"
  "toString (Fin False (5 / 2)) = ''2.5''"
  "parseFloat ''12.5'' = Fin False (25 / 2)"
  "parseFloat ''-0'' = Fin True 0"
  "toString (Fin True 0) = ''0''"
  "js_div (Fin False 1) (Fin False 0) = Infinity False"
  "toString (js_div (Fin False 0) (Fin False 0)) = ''NaN''"
  by (simp_all add: parse_eval str_eval num_eval frac_eval)

lemmas engine_eval = inputNumber_def inputDecimal_def clear_def
  performOperation_def calculate_def backspaceKey_def backspaceButton_def
  op_times_def op_divide_def Let_def
  parseFloat_numerals parseFloat_no_numeral arithmetic_examples toString_examples

lemmas number_simps = js_add.simps js_mul.simps js_div.simps toString.simps(3)

lemma initialState_fields:
  "display initialState = ''0''" "previousValue initialState = None"
  "operation initialState = None" "waitingForNewValue initialState = False"
  "lastOperation initialState = None" "lastOperand initialState = None"
  by (simp_all add: initialState_def)

lemma run_append: "run (es @ fs) s = run fs (run es s)"
  by (induction es arbitrary: s) simp_all

lemma run_five_plus_three:
  "run five_plus_three initialState =
     \<lparr>display = ''8'', previousValue = None, operation = None, waitingForNewValue = True,
      lastOperation = Some ''+'', lastOperand = Some (Fin False 3)\<rparr>"
  by (simp add: five_plus_three_def initialState_def engine_eval del: number_simps)

lemma run_three_plus_four:
  "run three_plus_four initialState =
     \<lparr>display = ''4'', previousValue = Some (Fin False 3), operation = Some ''+'',
      waitingForNewValue = False, lastOperation = None, lastOperand = None\<rparr>"
  by (simp add: three_plus_four_def initialState_def engine_eval del: number_simps)

lemma run_five_plus:
  "run five_plus initialState =
     \<lparr>display = ''5'', previousValue = Some (Fin False 5), operation = Some ''+'',
      waitingForNewValue = True, lastOperation = None, lastOperand = None\<rparr>"
  by (simp add: five_plus_def initialState_def engine_eval del: number_simps)

lemma run_five_by_zero:
  "run five_by_zero initialState =
     \<lparr>display = ''0'', previousValue = Some (Fin False 5), operation = Some op_divide,
      waitingForNewValue = False, lastOperation = None, lastOperand = None\<rparr>"
  by (simp add: five_by_zero_def initialState_def engine_eval del: number_simps)

lemma run_six_by_two:
  "run six_by_two initialState =
     \<lparr>display = ''2'', previousValue = Some (Fin False 6), operation = Some op_divide,
      waitingForNewValue = False, lastOperation = None, lastOperand = None\<rparr>"
  by (simp add: six_by_two_def initialState_def engine_eval del: number_simps)

lemma run_sum_then_five_by_zero:
  "run sum_then_five_by_zero initialState =
     \<lparr>display = ''0'', previousValue = Some (Fin False 5), operation = Some op_divide,
      waitingForNewValue = False, lastOperation = Some ''+'',
      lastOperand = Some (Fin False 3)\<rparr>"
  by (simp add: sum_then_five_by_zero_def initialState_def engine_eval del: number_simps)

lemma run_error_plus_three:
  "run error_plus_three initialState =
     \<lparr>display = ''3'', previousValue = Some NaN, operation = Some ''+'',
      waitingForNewValue = False, lastOperation = None, lastOperand = None\<rparr>"
  by (simp add: error_plus_three_def initialState_def engine_eval del: number_simps)

lemma run_negative_zero_minus_zero:
  "run negative_zero_minus_zero initialState =
     \<lparr>display = ''0'', previousValue = Some (Fin True 0), operation = Some ''-'',
      waitingForNewValue = False, lastOperation = Some op_times,
      lastOperand = Some (Fin False 0)\<rparr>"
  by (simp add: negative_zero_minus_zero_def initialState_def engine_eval del: number_simps)

lemma run_one_point_five:
  "run one_point_five initialState =
     \<lparr>display = ''1.5'', previousValue = None, operation = None,
      waitingForNewValue = False, lastOperation = None, lastOperand = None\<rparr>"
  by (simp add: one_point_five_def initialState_def engine_eval del: number_simps)

section \<open>The keyboard\<close>

text \<open>
  The keyboard handler produces the same events as the buttons; its backspace is
  \<open>backspaceKey\<close>, the button's is \<open>backspaceButton\<close>.
\<close>

lemma handleKeyPress_digit:
  assumes "d \<in> set digit_keys"
  shows "handleKeyPress d s = dispatch (Digit d) s"
proof -
  have "''0'' \<le> d \<and> d \<le> ''9''"
    using assms by (auto simp: digit_keys_def)
  then show ?thesis
    by (simp add: handleKeyPress_def)
qed

lemma handleKeyPress_dispatch:
  "handleKeyPress ''.'' s = dispatch Decimal s"
  "handleKeyPress ''+'' s = dispatch (Operator ''+'') s"
  "handleKeyPress ''-'' s = dispatch (Operator ''-'') s"
  "handleKeyPress ''*'' s = dispatch (Operator op_times) s"
  "handleKeyPress ''/'' s = dispatch (Operator op_divide) s"
  "handleKeyPress ''Enter'' s = dispatch Equals s"
  "handleKeyPress ''='' s = dispatch Equals s"
  "handleKeyPress ''Escape'' s = dispatch Clear s"
  "handleKeyPress ''c'' s = dispatch Clear s"
  "handleKeyPress ''C'' s = dispatch Clear s"
  "handleKeyPress ''Backspace'' s = dispatch Backspace s"
  by (simp_all add: handleKeyPress_def)

section \<open>Division by zero\<close>

text \<open>
  Claim C1. In a state with a staged operand, the division pending and a new operand
  entered, whose display parses to a zero (\<^verbatim>\<open>inputValue === 0\<close>, so either zero),
  \<open>performOperation\<close> with any next operator and \<open>calculate\<close> both set the display to
  \<^verbatim>\<open>Error\<close>, clear the staged operand and the pending operation, set
  \<open>waitingForNewValue\<close> and leave the recorded last operation and operand as they were.
  What is displayed is the sentinel, not the text of NaN or of an infinity.
\<close>
theorem division_by_zero_yields_Error:
  assumes "previousValue s \<noteq> None" and "operation s = Some op_divide"
    and "\<not> waitingForNewValue s"
    and "strict_eq (parseFloat (display s)) (Fin False 0)"
  shows "performOperation nxt s
           = s\<lparr>display := ''Error'', previousValue := None, operation := None,
                waitingForNewValue := True\<rparr>
       \<and> calculate s
           = s\<lparr>display := ''Error'', previousValue := None, operation := None,
                waitingForNewValue := True\<rparr>
       \<and> last_pair (performOperation nxt s) = last_pair s
       \<and> last_pair (calculate s) = last_pair s
       \<and> ''Error'' \<notin> {toString NaN, toString (Infinity False), toString (Infinity True)}"
  by (simp add: assms performOperation_def calculate_def Let_def op_times_def op_divide_def
      last_pair_def)

theorem division_by_zero_yields_Error_witness:
  "previousValue (run five_by_zero initialState) \<noteq> None
   \<and> operation (run five_by_zero initialState) = Some op_divide
   \<and> \<not> waitingForNewValue (run five_by_zero initialState)
   \<and> strict_eq (parseFloat (display (run five_by_zero initialState))) (Fin False 0)
   \<and> display (performOperation ''+'' (run five_by_zero initialState)) = ''Error''
   \<and> operation (performOperation ''+'' (run five_by_zero initialState)) = None
   \<and> display (calculate (run five_by_zero initialState)) = ''Error''"
  using division_by_zero_yields_Error [of "run five_by_zero initialState" "''+''"]
  by (simp add: run_five_by_zero parseFloat_numerals)

section \<open>Backspace\<close>

lemma backspaceKey_display:
  "display (backspaceKey s) =
     (if display s = ''0'' \<or> display s = ''Error'' \<or> length (display s) \<le> 1 then ''0''
      else butlast (display s))"
  by (auto simp: backspaceKey_def)

lemma backspaceKey_not_empty: "display (backspaceKey s) \<noteq> []"
  by (cases "display s" rule: rev_cases) (auto simp: backspaceKey_def)

lemma backspaceButton_display:
  "display s \<noteq> ''Error'' \<Longrightarrow>
   display (backspaceButton s) =
     (if display s = ''0'' \<or> length (display s) \<le> 1 then ''0'' else butlast (display s))"
  by (cases "display s" rule: rev_cases) (auto simp: backspaceButton_def)

lemma backspaceButton_not_empty: "display (backspaceButton s) \<noteq> []"
  by (simp add: backspaceButton_def)

lemma backspaceButton_Error:
  "display s = ''Error'' \<Longrightarrow> display (backspaceButton s) = ''Erro''"
  by (simp add: backspaceButton_def)


text \<open>
  Claim C2. Backspace on a display of \<^verbatim>\<open>Error\<close> is to give \<^verbatim>\<open>0\<close> on every path. After
  \<^verbatim>\<open>5 \<div> 0 =\<close> the display is \<^verbatim>\<open>Error\<close>; the keyboard's updater then gives \<^verbatim>\<open>0\<close>, as
  \<open>backspaceKey_display\<close> shows for every state, but the updater of the on-screen button
  only drops the last character and leaves \<^verbatim>\<open>Erro\<close>. On every other display the two
  agree (\<open>backspaceButton_display\<close>), and neither leaves an empty display.
\<close>
theorem backspaceButton_on_Error:
  "display (run (five_by_zero @ [Equals]) initialState) = ''Error''
   \<and> display (run (five_by_zero @ [Equals, DeleteButton]) initialState) = ''Erro''
   \<and> display (run (five_by_zero @ [Equals, Backspace]) initialState) = ''0''"
  by (simp add: run_append run_five_by_zero engine_eval del: number_simps)

section \<open>Repeating the last operation\<close>

lemma calculate_repeat:
  assumes "previousValue s = None \<or> operation s = None"
    and "lastOperation s = Some opr" and "opr \<in> set operators" and "lastOperand s = Some r"
  shows "calculate s
           = s\<lparr>display := show_result (binary_operation opr (parseFloat (display s)) r),
                waitingForNewValue := True\<rparr>"
  using assms
  by (auto simp: calculate_def binary_operation_def show_result_def operators_def Let_def
      op_times_def op_divide_def)

text \<open>
  Claim C3. From the initial state \<^verbatim>\<open>5 + 3 =\<close> displays \<^verbatim>\<open>8\<close>, and one more \<^verbatim>\<open>=\<close>
  displays \<^verbatim>\<open>11\<close>. In every state without a pending operation and with a recorded last
  operation, \<open>calculate\<close> applies the recorded operator to the displayed value on the left
  and the recorded operand on the right, shows the result and sets \<open>waitingForNewValue\<close>;
  nothing else changes.
\<close>
theorem repeat_last_operation:
  "display (run five_plus_three initialState) = ''8''
   \<and> display (run (five_plus_three @ [Equals]) initialState) = ''11''
   \<and> ((previousValue s = None \<or> operation s = None) \<and> lastOperation s = Some opr
        \<and> opr \<in> set operators \<and> lastOperand s = Some r
      \<longrightarrow> calculate s
            = s\<lparr>display := show_result (binary_operation opr (parseFloat (display s)) r),
                 waitingForNewValue := True\<rparr>)"
proof (intro conjI impI)
  show "display (run five_plus_three initialState) = ''8''"
    by (simp add: run_five_plus_three)
  show "display (run (five_plus_three @ [Equals]) initialState) = ''11''"
    by (simp add: run_append run_five_plus_three engine_eval del: number_simps)
next
  assume "(previousValue s = None \<or> operation s = None) \<and> lastOperation s = Some opr
        \<and> opr \<in> set operators \<and> lastOperand s = Some r"
  then show "calculate s
            = s\<lparr>display := show_result (binary_operation opr (parseFloat (display s)) r),
                 waitingForNewValue := True\<rparr>"
    by (simp add: calculate_repeat)
qed

theorem repeat_last_operation_witness:
  "(previousValue (run five_plus_three initialState) = None
      \<or> operation (run five_plus_three initialState) = None)
   \<and> lastOperation (run five_plus_three initialState) = Some ''+''
   \<and> ''+'' \<in> set operators
   \<and> lastOperand (run five_plus_three initialState) = Some (Fin False 3)
   \<and> calculate (run five_plus_three initialState)
       = \<lparr>display = ''11'', previousValue = None, operation = None,
          waitingForNewValue = True, lastOperation = Some ''+'',
          lastOperand = Some (Fin False 3)\<rparr>"
  using repeat_last_operation [of "run five_plus_three initialState" "''+''" "Fin False 3"]
  by (simp add: run_five_plus_three operators_def binary_operation_def show_result_def
      parseFloat_numerals arithmetic_examples toString_examples del: number_simps)

section \<open>Chained operations\<close>

lemma performOperation_chain:
  assumes "previousValue s = Some p" and "operation s = Some opr"
    and "opr \<in> set operators" and "\<not> waitingForNewValue s"
    and "binary_operation opr (or_zero (Some p)) (parseFloat (display s)) = Some result"
  shows "performOperation nxt s
           = s\<lparr>display := toString result, previousValue := Some result,
                operation := Some nxt, waitingForNewValue := True,
                lastOperation := Some opr,
                lastOperand := Some (parseFloat (display s))\<rparr>"
  using assms
  by (auto simp: performOperation_def binary_operation_def operators_def Let_def
      op_times_def op_divide_def split: if_splits simp del: or_zero.simps)

text \<open>
  The left operand of a chained operation is \<^verbatim>\<open>previousValue || 0\<close>, that of equals is
  \<^verbatim>\<open>previousValue\<close>. The two are the same number unless the staged operand is NaN or
  the negative zero. An operator pressed on a display of \<^verbatim>\<open>Error\<close> stages NaN: after
  \<^verbatim>\<open>5 \<div> 0 = + 3\<close> an operator displays \<^verbatim>\<open>3\<close> and equals displays \<^verbatim>\<open>NaN\<close>.
\<close>

lemma or_zero_staged:
  assumes "p \<noteq> NaN" and "p \<noteq> Fin True 0"
  shows "or_zero (Some p) = p"
  using assms by (cases p) auto

lemma staged_NaN_reads_as_zero:
  "display (run (error_plus_three @ [Operator op_times]) initialState) = ''3''"
  "display (run (error_plus_three @ [Equals]) initialState) = ''NaN''"
  by (simp_all add: run_append run_error_plus_three engine_eval del: number_simps)

text \<open>
  Claim C4 says that an operator pressed while an operation is pending and a new operand
  has been entered computes the pending operation, the staged operand on the left, and
  stages its result and then the new operator. Three reachable states show where it fails.
  After \<^verbatim>\<open>5 \<div> 0 = + 3\<close> the staged operand is NaN and the pending sum is NaN, but the
  code reads the staged operand as 0 and shows and stages \<^verbatim>\<open>3\<close>. After
  \<^verbatim>\<open>5 - 8 = \<times> 0 - 0\<close> the staged operand is the negative zero and the pending difference
  is the negative zero, but the code stages the zero. After \<^verbatim>\<open>5 \<div> 0\<close> the pending
  division has no result, and the code stages no operator (claim C1).
\<close>
theorem chained_operations_counterexample:
  "previousValue (run error_plus_three initialState) = Some NaN
   \<and> operation (run error_plus_three initialState) = Some ''+''
   \<and> \<not> waitingForNewValue (run error_plus_three initialState)
   \<and> binary_operation ''+'' NaN (parseFloat (display (run error_plus_three initialState)))
       = Some NaN
   \<and> display (performOperation op_times (run error_plus_three initialState)) = ''3''
   \<and> previousValue (performOperation op_times (run error_plus_three initialState))
       = Some (Fin False 3)
   \<and> \<not> chains_pending_operation op_times (run error_plus_three initialState)
   \<and> binary_operation ''-'' (Fin True 0)
         (parseFloat (display (run negative_zero_minus_zero initialState)))
       = Some (Fin True 0)
   \<and> previousValue (performOperation ''+'' (run negative_zero_minus_zero initialState))
       = Some (Fin False 0)
   \<and> \<not> chains_pending_operation ''+'' (run negative_zero_minus_zero initialState)
   \<and> operation (performOperation ''+'' (run five_by_zero initialState)) = None
   \<and> \<not> chains_pending_operation ''+'' (run five_by_zero initialState)"
  by (simp add: run_error_plus_three run_negative_zero_minus_zero run_five_by_zero
      chains_pending_operation_def binary_operation_def engine_eval
      del: number_simps)

text \<open>
  Claim C4, amended. From the initial state \<^verbatim>\<open>3 + 4 \<times> 2 =\<close> displays \<^verbatim>\<open>14\<close>: the press
  of \<open>\<times>\<close> computes \<^verbatim>\<open>3 + 4\<close>, shows and stages \<^verbatim>\<open>7\<close> and then stages \<open>\<times>\<close>. In every
  state with one of the four operators pending and a new operand entered, where the staged
  operand is neither NaN nor the negative zero and the pending operation has a result (it
  is not a division by a zero), pressing an operator computes the pending operation with
  the staged operand on the left and the displayed value on the right, shows and stages
  the result, stages the new operator, sets \<open>waitingForNewValue\<close> and records the operation
  and the operand just used.
\<close>
theorem chained_operations:
  "display (run (three_plus_four @ [Operator op_times, Digit ''2'', Equals]) initialState)
     = ''14''
   \<and> run (three_plus_four @ [Operator op_times]) initialState
       = \<lparr>display = ''7'', previousValue = Some (Fin False 7), operation = Some op_times,
          waitingForNewValue = True, lastOperation = Some ''+'',
          lastOperand = Some (Fin False 4)\<rparr>
   \<and> (previousValue s = Some p \<and> p \<noteq> NaN \<and> p \<noteq> Fin True 0
        \<and> operation s = Some opr \<and> opr \<in> set operators \<and> \<not> waitingForNewValue s
        \<and> binary_operation opr p (parseFloat (display s)) = Some result
      \<longrightarrow> performOperation nxt s
            = s\<lparr>display := toString result, previousValue := Some result,
                 operation := Some nxt, waitingForNewValue := True,
                 lastOperation := Some opr,
                 lastOperand := Some (parseFloat (display s))\<rparr>
          \<and> chains_pending_operation nxt s)"
proof (intro conjI impI)
  show "display (run (three_plus_four @ [Operator op_times, Digit ''2'', Equals]) initialState)
          = ''14''"
    by (simp add: run_append run_three_plus_four engine_eval del: number_simps)
  show "run (three_plus_four @ [Operator op_times]) initialState
          = \<lparr>display = ''7'', previousValue = Some (Fin False 7), operation = Some op_times,
             waitingForNewValue = True, lastOperation = Some ''+'',
             lastOperand = Some (Fin False 4)\<rparr>"
    by (simp add: run_append run_three_plus_four engine_eval del: number_simps)
next
  assume pending: "previousValue s = Some p \<and> p \<noteq> NaN \<and> p \<noteq> Fin True 0
        \<and> operation s = Some opr \<and> opr \<in> set operators \<and> \<not> waitingForNewValue s
        \<and> binary_operation opr p (parseFloat (display s)) = Some result"
  then have "or_zero (Some p) = p"
    by (intro or_zero_staged) simp_all
  then have "binary_operation opr (or_zero (Some p)) (parseFloat (display s)) = Some result"
    using pending by simp
  then show chained: "performOperation nxt s
            = s\<lparr>display := toString result, previousValue := Some result,
                 operation := Some nxt, waitingForNewValue := True,
                 lastOperation := Some opr,
                 lastOperand := Some (parseFloat (display s))\<rparr>"
    using pending by (simp add: performOperation_chain)
  show "chains_pending_operation nxt s"
    using pending chained by (simp add: chains_pending_operation_def)
qed

theorem chained_operations_witness:
  "previousValue (run three_plus_four initialState) = Some (Fin False 3)
   \<and> Fin False 3 \<noteq> NaN \<and> Fin False 3 \<noteq> Fin True 0
   \<and> operation (run three_plus_four initialState) = Some ''+''
   \<and> ''+'' \<in> set operators
   \<and> \<not> waitingForNewValue (run three_plus_four initialState)
   \<and> binary_operation ''+'' (Fin False 3)
         (parseFloat (display (run three_plus_four initialState))) = Some (Fin False 7)
   \<and> performOperation op_times (run three_plus_four initialState)
       = \<lparr>display = ''7'', previousValue = Some (Fin False 7), operation = Some op_times,
          waitingForNewValue = True, lastOperation = Some ''+'',
          lastOperand = Some (Fin False 4)\<rparr>
   \<and> chains_pending_operation op_times (run three_plus_four initialState)"
  using chained_operations
    [of "run three_plus_four initialState" "Fin False 3" "''+''" "Fin False 7" op_times]
  by (simp add: run_three_plus_four operators_def binary_operation_def
      parseFloat_numerals arithmetic_examples toString_examples del: number_simps)

section \<open>Operator substitution\<close>

text \<open>
  Claim C5. In every state with a staged operand, one of the four operators pending and
  \<open>waitingForNewValue\<close> set, pressing an operator replaces the pending operator and changes
  nothing else. From the initial state \<^verbatim>\<open>5 + \<times>\<close> leaves \<^verbatim>\<open>5\<close> staged with \<open>\<times>\<close> pending,
  and \<^verbatim>\<open>5 + \<times> 2 =\<close> displays \<^verbatim>\<open>10\<close>.
\<close>
theorem operator_substitution:
  "(previousValue s \<noteq> None \<and> operation s = Some opr \<and> opr \<in> set operators
      \<and> waitingForNewValue s
    \<longrightarrow> performOperation nxt s = s\<lparr>operation := Some nxt\<rparr>)
   \<and> run (five_plus @ [Operator op_times]) initialState
       = \<lparr>display = ''5'', previousValue = Some (Fin False 5), operation = Some op_times,
          waitingForNewValue = True, lastOperation = None, lastOperand = None\<rparr>
   \<and> display (run (five_plus @ [Operator op_times, Digit ''2'', Equals]) initialState)
       = ''10''"
proof (intro conjI impI)
  assume "previousValue s \<noteq> None \<and> operation s = Some opr \<and> opr \<in> set operators
      \<and> waitingForNewValue s"
  then show "performOperation nxt s = s\<lparr>operation := Some nxt\<rparr>"
    by (auto simp: performOperation_def operators_def Let_def op_times_def op_divide_def)
next
  show "run (five_plus @ [Operator op_times]) initialState
       = \<lparr>display = ''5'', previousValue = Some (Fin False 5), operation = Some op_times,
          waitingForNewValue = True, lastOperation = None, lastOperand = None\<rparr>"
    by (simp add: run_append run_five_plus engine_eval del: number_simps)
  show "display (run (five_plus @ [Operator op_times, Digit ''2'', Equals]) initialState)
       = ''10''"
    by (simp add: run_append run_five_plus engine_eval del: number_simps)
qed

theorem operator_substitution_witness:
  "previousValue (run five_plus initialState) \<noteq> None
   \<and> operation (run five_plus initialState) = Some ''+''
   \<and> ''+'' \<in> set operators
   \<and> waitingForNewValue (run five_plus initialState)
   \<and> performOperation op_times (run five_plus initialState)
       = (run five_plus initialState)\<lparr>operation := Some op_times\<rparr>"
  using operator_substitution [of "run five_plus initialState" "''+''" op_times]
  by (simp add: run_five_plus operators_def)

section \<open>An operator followed by equals\<close>

lemma reuses_after_staging:
  assumes "opr \<in> set operators" and "previousValue s = None"
  shows "reuses_displayed_operand (performOperation opr s)"
    and "display (calculate (performOperation opr s))
           = show_result (binary_operation opr (parseFloat (display s)) (parseFloat (display s)))"
  using assms
  by (auto simp: reuses_displayed_operand_def performOperation_def calculate_def
      binary_operation_def show_result_def operators_def Let_def op_times_def op_divide_def)

lemma reuses_after_substitution:
  assumes "opr \<in> set operators" and "previousValue s \<noteq> None"
    and "known_operator (operation s)" and "waitingForNewValue s"
  shows "reuses_displayed_operand (performOperation opr s)"
  using assms
  by (auto simp: reuses_displayed_operand_def performOperation_def calculate_def
      binary_operation_def show_result_def operators_def known_operator_def Let_def
      op_times_def op_divide_def split: option.splits)

lemma reuses_after_chain:
  assumes "opr \<in> set operators" and "previousValue s \<noteq> None"
    and "known_operator (operation s)" and "\<not> waitingForNewValue s"
    and "\<not> divides_by_zero s"
  shows "reuses_displayed_operand (performOperation opr s)"
  using assms
  by (auto simp: reuses_displayed_operand_def performOperation_def calculate_def
      binary_operation_def show_result_def operators_def known_operator_def Let_def
      divides_by_zero_def op_times_def op_divide_def split: option.splits
      simp del: or_zero.simps number_simps)

text \<open>
  Claim C6 says that in every state an operator followed at once by equals computes with
  the value displayed after the operator as the right operand. It fails where the operator
  runs into the division by a zero: after \<^verbatim>\<open>2 + 3 = 5 \<div> 0\<close> the press of \<open>+\<close> displays
  \<^verbatim>\<open>Error\<close> and leaves nothing pending, and equals then repeats the recorded \<^verbatim>\<open>+ 3\<close> with
  the displayed value on the left, which displays \<^verbatim>\<open>NaN\<close>.
\<close>
theorem operator_then_equals_counterexample:
  "''+'' \<in> set operators
   \<and> display (performOperation ''+'' (run sum_then_five_by_zero initialState)) = ''Error''
   \<and> \<not> reuses_displayed_operand
         (performOperation ''+'' (run sum_then_five_by_zero initialState))
   \<and> display (calculate (performOperation ''+'' (run sum_then_five_by_zero initialState)))
       = toString (js_add (parseFloat ''Error'') (Fin False 3))
   \<and> display (calculate (performOperation ''+'' (run sum_then_five_by_zero initialState)))
       = ''NaN''"
  by (simp add: run_sum_then_five_by_zero reuses_displayed_operand_def operators_def
      engine_eval)

text \<open>
  Claim C6, amended. In every state with no staged operand, and in every state with one of
  the four operators pending in which the operator does not take the division-by-zero
  path of claim C1, an operator followed at once by equals shows the pending operation
  applied to the staged operand and, on the right, the value displayed after the operator.
  From a state with no staged operand and a display that parses to \<open>d\<close> this is \<open>d op d\<close>
  by the operation table, that is \<^verbatim>\<open>Error\<close> for a division with \<open>d\<close> zero.
\<close>
theorem operator_then_equals:
  assumes "opr \<in> set operators"
    and "previousValue s = None
         \<or> known_operator (operation s) \<and> \<not> (\<not> waitingForNewValue s \<and> divides_by_zero s)"
  shows "reuses_displayed_operand (performOperation opr s)
       \<and> (previousValue s = None \<longrightarrow>
            display (calculate (performOperation opr s))
              = show_result
                  (binary_operation opr (parseFloat (display s)) (parseFloat (display s))))"
proof (cases "previousValue s = None")
  case True
  show ?thesis
    using reuses_after_staging [OF assms(1) True] by simp
next
  case staged: False
  then have known: "known_operator (operation s)"
    and safe: "\<not> (\<not> waitingForNewValue s \<and> divides_by_zero s)"
    using assms(2) by auto
  show ?thesis
  proof (cases "waitingForNewValue s")
    case True
    show ?thesis
      using reuses_after_substitution [OF assms(1) staged known True] by (simp add: staged)
  next
    case entered: False
    then have "\<not> divides_by_zero s"
      using safe by simp
    then show ?thesis
      using reuses_after_chain [OF assms(1) staged known entered] by (simp add: staged)
  qed
qed

theorem operator_then_equals_witness:
  "op_times \<in> set operators
   \<and> known_operator (operation (run three_plus_four initialState))
   \<and> \<not> (\<not> waitingForNewValue (run three_plus_four initialState)
          \<and> divides_by_zero (run three_plus_four initialState))
   \<and> reuses_displayed_operand (performOperation op_times (run three_plus_four initialState))
   \<and> previousValue initialState = None
   \<and> display (calculate (performOperation op_times initialState))
       = show_result (binary_operation op_times (parseFloat ''0'') (parseFloat ''0''))"
  using operator_then_equals [of op_times "run three_plus_four initialState"]
    operator_then_equals [of op_times initialState]
  by (simp add: run_three_plus_four operators_def known_operator_def divides_by_zero_def
      op_times_def op_divide_def initialState_fields parseFloat_numerals)

section \<open>At most one decimal point\<close>

lemma dots_inputNumber:
  assumes "d \<in> set digit_keys" and "dots (display s) \<le> 1"
  shows "dots (display (inputNumber d s)) \<le> 1"
  using assms by (auto simp: inputNumber_def digit_keys_def dots_def)

lemma dots_inputDecimal:
  assumes "dots (display s) \<le> 1"
  shows "dots (display (inputDecimal s)) \<le> 1"
  using assms by (auto simp: inputDecimal_def dots_def count_list_0_iff)

lemma dots_run:
  assumes "list_all entry_event es" and "dots (display s) \<le> 1"
  shows "dots (display (run es s)) \<le> 1"
  using assms
proof (induction es arbitrary: s)
  case Nil
  then show ?case by simp
next
  case (Cons e es)
  have ev: "entry_event e" and rest: "list_all entry_event es"
    using Cons.prems(1) by simp_all
  have "dots (display (dispatch e s)) \<le> 1"
  proof (cases e)
    case (Digit d)
    then have "d \<in> set digit_keys"
      using ev by simp
    from dots_inputNumber [OF this Cons.prems(2)] show ?thesis
      by (simp add: Digit)
  next
    case Decimal
    from dots_inputDecimal [OF Cons.prems(2)] show ?thesis
      by (simp add: Decimal)
  qed (use ev in simp_all)
  from Cons.IH [OF rest this] show ?case
    by simp
qed

text \<open>
  Claim C7. After every sequence of digit and decimal-point events from the initial state
  the display holds at most one decimal point; and where \<open>waitingForNewValue\<close> is not set
  and the display holds a decimal point, \<open>inputDecimal\<close> returns the state unchanged.
\<close>
theorem single_decimal_point:
  "(list_all entry_event es \<longrightarrow> dots (display (run es initialState)) \<le> 1)
   \<and> (\<not> waitingForNewValue s \<and> CHR ''.'' \<in> set (display s) \<longrightarrow> inputDecimal s = s)"
proof (intro conjI impI)
  assume "list_all entry_event es"
  then show "dots (display (run es initialState)) \<le> 1"
    by (rule dots_run) (simp add: initialState_fields dots_def)
next
  assume "\<not> waitingForNewValue s \<and> CHR ''.'' \<in> set (display s)"
  then show "inputDecimal s = s"
    by (simp add: inputDecimal_def)
qed

theorem single_decimal_point_witness:
  "list_all entry_event (one_point_five @ [Decimal])
   \<and> display (run (one_point_five @ [Decimal]) initialState) = ''1.5''
   \<and> dots (display (run (one_point_five @ [Decimal]) initialState)) \<le> 1
   \<and> \<not> waitingForNewValue (run one_point_five initialState)
   \<and> CHR ''.'' \<in> set (display (run one_point_five initialState))
   \<and> inputDecimal (run one_point_five initialState) = run one_point_five initialState"
proof -
  have events: "list_all entry_event (one_point_five @ [Decimal])"
    by (simp add: one_point_five_def digit_keys_def)
  have entered: "\<not> waitingForNewValue (run one_point_five initialState)
      \<and> CHR ''.'' \<in> set (display (run one_point_five initialState))"
    by (simp add: run_one_point_five)
  show ?thesis
    using single_decimal_point
      [of "one_point_five @ [Decimal]" "run one_point_five initialState"] events entered
    by (simp add: run_append run_one_point_five inputDecimal_def)
qed

section \<open>The recorded last operation\<close>

lemma last_pair_performOperation:
  "last_pair (performOperation nxt s) =
     (if commits (Operator nxt) s then (operation s, Some (parseFloat (display s)))
      else last_pair s)"
  by (auto simp: performOperation_def last_pair_def known_operator_def operators_def
      divides_by_zero_def Let_def op_times_def op_divide_def split: option.splits)

lemma last_pair_calculate:
  "last_pair (calculate s) =
     (if commits Equals s then (operation s, Some (parseFloat (display s)))
      else last_pair s)"
  by (auto simp: calculate_def last_pair_def known_operator_def operators_def
      divides_by_zero_def Let_def op_times_def op_divide_def split: option.splits)

lemma last_pair_dispatch:
  "last_pair (dispatch e s) =
     (if e = Clear then (None, None)
      else if commits e s then (operation s, Some (parseFloat (display s)))
      else last_pair s)"
proof (cases e)
  case (Operator nxt)
  then show ?thesis using last_pair_performOperation [of nxt s] by simp
next
  case Equals
  then show ?thesis using last_pair_calculate [of s] by simp
qed (simp_all add: last_pair_def inputNumber_def inputDecimal_def clear_def
    backspaceKey_def backspaceButton_def)

lemma last_pair_unchanged:
  "last_pair (inputNumber d s) = last_pair s"
  "last_pair (inputDecimal s) = last_pair s"
  "last_pair (backspaceKey s) = last_pair s"
  "last_pair (backspaceButton s) = last_pair s"
  "previousValue s = None \<Longrightarrow> last_pair (performOperation nxt s) = last_pair s"
  "waitingForNewValue s \<Longrightarrow> last_pair (performOperation nxt s) = last_pair s"
  "divides_by_zero s \<Longrightarrow> last_pair (performOperation nxt s) = last_pair s"
  "divides_by_zero s \<Longrightarrow> last_pair (calculate s) = last_pair s"
  "previousValue s = None \<or> operation s = None \<Longrightarrow> last_pair (calculate s) = last_pair s"
  using last_pair_dispatch [of "Digit d" s] last_pair_dispatch [of Decimal s]
    last_pair_dispatch [of Backspace s] last_pair_dispatch [of DeleteButton s]
  by (auto simp: last_pair_performOperation last_pair_calculate known_operator_def)
lemma commits_known: "commits e s \<Longrightarrow> known_operator (operation s)"
  by (cases e) simp_all

lemma last_invariant_pair:
  "last_invariant s \<longleftrightarrow>
     (case last_pair s of
        (None, r) \<Rightarrow> r = None
      | (Some opr, None) \<Rightarrow> False
      | (Some opr, Some r) \<Rightarrow>
          opr \<in> set operators \<and> \<not> (opr = op_divide \<and> strict_eq r (Fin False 0)))"
  by (simp add: last_invariant_def last_pair_def split: option.splits)

lemma last_invariant_dispatch:
  assumes "last_invariant s"
  shows "last_invariant (dispatch e s)"
proof (cases "e = Clear")
  case True
  then show ?thesis
    by (simp add: last_invariant_def clear_def)
next
  case other: False
  show ?thesis
  proof (cases "commits e s")
    case True
    then have "known_operator (operation s)" and "\<not> divides_by_zero s"
      by (cases e; simp)+
    then show ?thesis
      using True other
      by (auto simp: last_invariant_pair last_pair_dispatch known_operator_def
          divides_by_zero_def split: option.splits)
  next
    case False
    then show ?thesis
      using assms other by (simp add: last_invariant_pair last_pair_dispatch)
  qed
qed

lemma last_invariant_run:
  assumes "last_invariant s"
  shows "last_invariant (run es s)"
  using assms
  by (induction es arbitrary: s) (simp_all add: last_invariant_dispatch)

lemma last_invariant_reachable: "last_invariant (run es initialState)"
  by (rule last_invariant_run) (simp add: last_invariant_def initialState_fields)

text \<open>
  Claim C8. In every state reached from the initial state the last operation and the last
  operand are both recorded or both absent. For every state and event, the pair after the
  event is: both absent after clear; the pending operator and the displayed operand after
  an operator or equals that commits the result of a pending operation (\<open>commits\<close>), and
  then both are present; and the pair as it was in every other case, which takes in
  digits, the decimal point, both backspaces, staging, substitution, the repeat and the
  division-by-zero paths (\<open>last_pair_unchanged\<close> lists them).
\<close>
theorem last_operation_pair:
  "((lastOperation (run es initialState) = None) = (lastOperand (run es initialState) = None))
   \<and> last_pair (dispatch e s) =
       (if e = Clear then (None, None)
        else if commits e s then (operation s, Some (parseFloat (display s)))
        else last_pair s)
   \<and> (commits e s \<longrightarrow> operation s \<noteq> None)"
proof (intro conjI impI)
  show "(lastOperation (run es initialState) = None) = (lastOperand (run es initialState) = None)"
    using last_invariant_reachable [of es]
    by (auto simp: last_invariant_def split: option.splits)
  show "last_pair (dispatch e s) =
       (if e = Clear then (None, None)
        else if commits e s then (operation s, Some (parseFloat (display s)))
        else last_pair s)"
    by (rule last_pair_dispatch)
next
  assume "commits e s"
  then show "operation s \<noteq> None"
    using commits_known [of e s] by (auto simp: known_operator_def split: option.splits)
qed

theorem last_operation_pair_witness:
  "commits Equals (run six_by_two initialState)
   \<and> operation (run six_by_two initialState) \<noteq> None
   \<and> last_pair (run six_by_two initialState) = (None, None)
   \<and> last_pair (dispatch Equals (run six_by_two initialState))
       = (Some op_divide, Some (Fin False 2))
   \<and> \<not> commits Equals (run five_by_zero initialState)
   \<and> last_pair (dispatch Equals (run five_by_zero initialState)) = (None, None)"
  using last_operation_pair [of six_by_two Equals "run six_by_two initialState"]
    last_operation_pair [of five_by_zero Equals "run five_by_zero initialState"]
  by (simp add: run_six_by_two run_five_by_zero known_operator_def operators_def
      divides_by_zero_def last_pair_def parseFloat_numerals)

section \<open>No division by a recorded zero\<close>

text \<open>
  Claim C10. In every state reached from the initial state, a recorded last operation
  \<open>\<div>\<close> comes with a recorded operand that is not a zero, so the branch of \<open>calculate\<close>
  that answers a repeated division by a zero operand is never taken.
\<close>
theorem recorded_divisor_not_zero:
  "(lastOperation (run es initialState) = Some op_divide \<longrightarrow>
      (\<exists>r. lastOperand (run es initialState) = Some r \<and> \<not> strict_eq r (Fin False 0)))
   \<and> \<not> repeat_division_by_zero (run es initialState)"
  using last_invariant_reachable [of es]
  by (auto simp: last_invariant_def repeat_division_by_zero_def split: option.splits)

theorem recorded_divisor_not_zero_witness:
  "lastOperation (run (six_by_two @ [Equals]) initialState) = Some op_divide
   \<and> lastOperand (run (six_by_two @ [Equals]) initialState) = Some (Fin False 2)
   \<and> \<not> strict_eq (Fin False 2) (Fin False 0)
   \<and> \<not> repeat_division_by_zero (run (six_by_two @ [Equals]) initialState)"
  using recorded_divisor_not_zero [of "six_by_two @ [Equals]"]
  by (simp add: run_append run_six_by_two engine_eval del: number_simps)

section \<open>The formatter on short numerals\<close>

text \<open>
  Claim C9. The formatter returns its argument unchanged when the argument is \<^verbatim>\<open>Error\<close>,
  when it does not parse to a number, and when it parses to a number of absolute value
  below 1000.
\<close>
theorem formatDisplay_identity:
  assumes "v = ''Error'' \<or> isNaN (parseFloat v)
           \<or> js_lt (js_abs (parseFloat v)) (Fin False 1000)"
  shows "formatDisplay toExponential toLocaleString v = v"
proof (cases "v = ''Error'' \<or> isNaN (parseFloat v)")
  case True
  then show ?thesis
    by (auto simp: formatDisplay_def Let_def)
next
  case False
  then have small: "js_lt (js_abs (parseFloat v)) (Fin False 1000)"
    using assms by simp
  then have "\<not> js_gt (js_abs (parseFloat v)) (Fin False 999999999999)"
    and "\<not> js_ge (js_abs (parseFloat v)) (Fin False 1000)"
    by (cases "parseFloat v"; simp add: js_gt_def js_ge_def sval_def)+
  then show ?thesis
    by (simp add: formatDisplay_def Let_def)
qed

theorem formatDisplay_identity_witness:
  "formatDisplay toString toString ''Error'' = ''Error''
   \<and> isNaN (parseFloat ''abc'') \<and> formatDisplay toString toString ''abc'' = ''abc''
   \<and> js_lt (js_abs (parseFloat ''999'')) (Fin False 1000)
   \<and> formatDisplay toString toString ''999'' = ''999''
   \<and> js_lt (js_abs (parseFloat ''1.'')) (Fin False 1000)
   \<and> formatDisplay toString toString ''1.'' = ''1.''"
  using formatDisplay_identity [of "''Error''" toString toString]
    formatDisplay_identity [of "''abc''" toString toString]
    formatDisplay_identity [of "''999''" toString toString]
    formatDisplay_identity [of "''1.''" toString toString]
  by (simp add: isNaN_def parseFloat_numerals parseFloat_no_numeral sval_def)

end
